theory Spec2Isabelle
  imports Main
begin

section \<open>Values and rows\<close>

text \<open>
  A field of a JSON request body, as \<^verbatim>\<open>server.js\<close> destructures it from
  \<^verbatim>\<open>req.body\<close>: absent (\<open>Undefined\<close>), \<open>null\<close>, a string or a number. A number is
  carried as the text that JavaScript prints for it (\<open>Num ''3''\<close> is the number 3),
  which is also the text the database driver sends for it. The same type holds
  the value of a table column, where \<open>Undefined\<close> never occurs: the driver sends
  an \<open>undefined\<close> parameter as SQL \<open>NULL\<close>.

  Identifiers (\<open>plan_id\<close>, \<open>user_id\<close>, the generated keys) are natural numbers.
  Where a handler only passes a path segment on to the store, the segment is
  modelled by the integer it denotes.
\<close>

datatype val = Undefined | Null | Str string | Num string

fun to_sql :: "val \<Rightarrow> val" where
  "to_sql Undefined = Null"
| "to_sql v = v"

text \<open>
  A parameter as it reaches a text column: the driver sends every parameter as
  text, so a number arrives as the string of its digits.
\<close>

fun pg_text :: "val \<Rightarrow> val" where
  "pg_text Undefined = Null"
| "pg_text Null = Null"
| "pg_text (Str s) = Str s"
| "pg_text (Num t) = Str t"

text \<open>
  The path segment \<^verbatim>\<open>:planId\<close> of the deletion handler, which also prints it:
  the text of \<^verbatim>\<open>req.params.planId\<close> and the key that the store reads from that
  text when it is passed as a parameter (\<^verbatim>\<open>/01\<close> has the text \<open>''01''\<close> and the
  key 1). How the store reads a key from a text is the store's matter: the
  statements about the handler hold for every pairing of text and key, and a
  segment from which the store reads no key is a statement that the store
  rejects.
\<close>

record segment =
  seg_text :: string
  seg_key :: nat

text \<open>
  Modelled from the spec: the table definitions are not part of the repository.
  Each table has the columns that the SQL texts of \<^verbatim>\<open>server.js\<close> name and a
  generated unique key: \<open>uid\<close> (the spec's \<open>id\<close> of a User), \<open>plan_id\<close>,
  \<open>exercise_id\<close>. \<open>ex_plan_id\<close> and \<open>ex_notes\<close> are the exercise table's columns
  \<^verbatim>\<open>plan_id\<close> and \<^verbatim>\<open>notes\<close>.
\<close>

record user =
  uid :: nat
  username :: val
  password :: val

record plan =
  plan_id :: nat
  user_id :: nat
  plan_name :: val
  description :: val

text \<open>The three columns that the plan listing selects.\<close>

record plan_summary =
  s_plan_id :: nat
  s_plan_name :: val
  s_description :: val

record exercise =
  exercise_id :: nat
  ex_plan_id :: nat
  exercise_name :: val
  sets :: val
  repetitions :: val
  ex_notes :: val

datatype row =
  UserRow user
| PlanRow plan
| SummaryRow plan_summary
| ExerciseRow exercise

record db =
  users :: "user list"
  plans :: "plan list"
  exercises :: "exercise list"

section \<open>The relational store behind \<^verbatim>\<open>pool.query\<close>\<close>

text \<open>
  The statements are the SQL texts of \<^verbatim>\<open>server.js\<close>, one constructor per text, with
  the parameters the handler passes.
\<close>

datatype stmt =
  Begin
| Commit
| Rollback
| InsertUser val val
| SelectUser val
| InsertPlan nat val val
| SelectPlans nat
| DeleteExercises nat
| DeletePlan nat
| InsertExercise nat val val val val
| SelectExercises nat

text \<open>
  Modelled from the spec: the store's default order is the order of insertion,
  so an insert appends its row to the table and a select without an ordering
  returns the matching rows in table order.

  \<open>change\<close> is the effect a data-changing statement has on the tables once it
  is durable.
\<close>

datatype change =
  InsUser user
| InsPlan plan
| InsExercise exercise
| DelExercises nat
| DelPlan nat

fun apply_write :: "change \<Rightarrow> db \<Rightarrow> db" where
  "apply_write (InsUser u) d = d\<lparr>users := users d @ [u]\<rparr>"
| "apply_write (InsPlan p) d = d\<lparr>plans := plans d @ [p]\<rparr>"
| "apply_write (InsExercise e) d = d\<lparr>exercises := exercises d @ [e]\<rparr>"
| "apply_write (DelExercises k) d =
     d\<lparr>exercises := filter (\<lambda>e. ex_plan_id e \<noteq> k) (exercises d)\<rparr>"
| "apply_write (DelPlan k) d =
     d\<lparr>plans := filter (\<lambda>p. plan_id p \<noteq> k) (plans d)\<rparr>"

definition apply_writes :: "change list \<Rightarrow> db \<Rightarrow> db" where
  "apply_writes ws d = foldl (\<lambda>acc x. apply_write x acc) d ws"

text \<open>
  The store is PostgreSQL, where a transaction belongs to one client
  (connection). A client of the pool is outside a transaction block, inside one
  with the writes it has not yet committed, or inside one that a failed
  statement has aborted. A statement on a client outside a block is durable at
  once; \<^verbatim>\<open>BEGIN\<close> inside a block and \<^verbatim>\<open>COMMIT\<close> or \<^verbatim>\<open>ROLLBACK\<close> outside one only
  warn.
\<close>

type_synonym conn = nat
type_synonym store_error = string

datatype txn_state = Idle | InTxn "change list" | Aborted

text \<open>
  The world a handler runs in. \<open>committed\<close> is the durable content of the tables,
  \<open>txn\<close> the transaction state of every client of the pool, and the three
  counters are the sequences behind the generated keys.

  \<open>sched\<close> is what the environment decides for each coming call of
  \<^verbatim>\<open>pool.query\<close>: the client that the pool checks out for that one call, and
  whether the store rejects the statement (with which error: a constraint of
  the schema, a lost connection, a timeout). The pool checks a connection out
  per query and takes it back on completion; \<^verbatim>\<open>server.js\<close> never checks out a
  client of its own, so nothing in the code fixes the client of a call. An
  exhausted schedule means client 0 and no rejection.

  \<open>issued\<close> records the statements sent so far with the client that served each.
\<close>

record world =
  committed :: db
  txn :: "conn \<Rightarrow> txn_state"
  next_user_id :: nat
  next_plan_id :: nat
  next_exercise_id :: nat
  sched :: "(conn \<times> store_error option) list"
  issued :: "(conn \<times> stmt) list"

definition peek :: "world \<Rightarrow> conn \<times> store_error option" where
  "peek w = (case sched w of [] \<Rightarrow> (0, None) | ev # _ \<Rightarrow> ev)"

text \<open>What a statement on client \<open>c\<close> sees: the committed rows and the client's own pending writes.\<close>

definition view :: "world \<Rightarrow> conn \<Rightarrow> db" where
  "view w c = (case txn w c of InTxn ws \<Rightarrow> apply_writes ws (committed w) | _ \<Rightarrow> committed w)"

definition do_write :: "conn \<Rightarrow> change \<Rightarrow> world \<Rightarrow> world" where
  "do_write c x w =
     (case txn w c of
        InTxn ws \<Rightarrow> w\<lparr>txn := (txn w)(c := InTxn (ws @ [x]))\<rparr>
      | _ \<Rightarrow> w\<lparr>committed := apply_write x (committed w)\<rparr>)"

text \<open>
  SQL equality of a text column with a parameter: the parameter is compared as
  the text the driver sends, and \<open>NULL\<close> equals nothing.
\<close>

definition sql_eq :: "val \<Rightarrow> val \<Rightarrow> bool" where
  "sql_eq col param = (pg_text param \<noteq> Null \<and> col = pg_text param)"

definition summary :: "plan \<Rightarrow> plan_summary" where
  "summary p = \<lparr>s_plan_id = plan_id p, s_plan_name = plan_name p, s_description = description p\<rparr>"

text \<open>
  An accepted statement on client \<open>c\<close>: the rows it returns and the world after it.
  \<open>username\<close> and \<open>password\<close> are text columns (the spec's strings) and hold the
  text that the driver sends; the types of the other columns are not in the
  repository, and their values are kept as the body carried them.
\<close>

fun run :: "conn \<Rightarrow> stmt \<Rightarrow> world \<Rightarrow> row list \<times> world" where
  "run c Begin w =
     ([], case txn w c of Idle \<Rightarrow> w\<lparr>txn := (txn w)(c := InTxn [])\<rparr> | _ \<Rightarrow> w)"
| "run c Commit w =
     ([], case txn w c of
            InTxn ws \<Rightarrow> w\<lparr>committed := apply_writes ws (committed w), txn := (txn w)(c := Idle)\<rparr>
          | _ \<Rightarrow> w\<lparr>txn := (txn w)(c := Idle)\<rparr>)"
| "run c Rollback w = ([], w\<lparr>txn := (txn w)(c := Idle)\<rparr>)"
| "run c (InsertUser name pw) w =
     (let u = \<lparr>uid = next_user_id w, username = pg_text name, password = pg_text pw\<rparr>
      in ([UserRow u], do_write c (InsUser u) (w\<lparr>next_user_id := next_user_id w + 1\<rparr>)))"
| "run c (SelectUser name) w =
     (map UserRow (filter (\<lambda>u. sql_eq (username u) name) (users (view w c))), w)"
| "run c (InsertPlan u name descr) w =
     (let p = \<lparr>plan_id = next_plan_id w, user_id = u, plan_name = to_sql name,
                description = to_sql descr\<rparr>
      in ([PlanRow p], do_write c (InsPlan p) (w\<lparr>next_plan_id := next_plan_id w + 1\<rparr>)))"
| "run c (SelectPlans u) w =
     (map (\<lambda>p. SummaryRow (summary p)) (filter (\<lambda>p. user_id p = u) (plans (view w c))), w)"
| "run c (DeleteExercises k) w = ([], do_write c (DelExercises k) w)"
| "run c (DeletePlan k) w =
     (map PlanRow (filter (\<lambda>p. plan_id p = k) (plans (view w c))), do_write c (DelPlan k) w)"
| "run c (InsertExercise k name s r n) w =
     (let e = \<lparr>exercise_id = next_exercise_id w, ex_plan_id = k, exercise_name = to_sql name,
                sets = to_sql s, repetitions = to_sql r, ex_notes = to_sql n\<rparr>
      in ([ExerciseRow e],
          do_write c (InsExercise e) (w\<lparr>next_exercise_id := next_exercise_id w + 1\<rparr>)))"
| "run c (SelectExercises k) w =
     (map ExerciseRow (filter (\<lambda>e. ex_plan_id e = k) (exercises (view w c))), w)"

definition ends_txn :: "stmt \<Rightarrow> bool" where
  "ends_txn s = (s = Commit \<or> s = Rollback)"

definition abort :: "conn \<Rightarrow> world \<Rightarrow> world" where
  "abort c w = (case txn w c of InTxn ws \<Rightarrow> w\<lparr>txn := (txn w)(c := Aborted)\<rparr> | _ \<Rightarrow> w)"

text \<open>
  One call of \<^verbatim>\<open>await pool.query(text, params)\<close>: \<open>Inl\<close> is the rejected promise
  (the exception at the \<^verbatim>\<open>await\<close>), \<open>Inr\<close> is \<^verbatim>\<open>result.rows\<close>. A rejected
  statement changes no row; inside a transaction block it aborts the block, and
  an aborted block rejects every statement but \<^verbatim>\<open>COMMIT\<close> and \<^verbatim>\<open>ROLLBACK\<close>.
\<close>

definition pool_query :: "stmt \<Rightarrow> world \<Rightarrow> (store_error + row list) \<times> world" where
  "pool_query s w =
     (let c = fst (peek w);
          w1 = w\<lparr>sched := tl (sched w), issued := issued w @ [(c, s)]\<rparr>
      in case snd (peek w) of
           Some e \<Rightarrow> (Inl e, abort c w1)
         | None \<Rightarrow>
             if txn w1 c = Aborted \<and> \<not> ends_txn s then (Inl ''25P02'', w1)
             else (case run c s w1 of (rows, w2) \<Rightarrow> (Inr rows, w2)))"

definition world_after :: "stmt \<Rightarrow> world \<Rightarrow> world" where
  "world_after s w = snd (pool_query s w)"

section \<open>The credential hasher\<close>

text \<open>
  \<^verbatim>\<open>bcrypt\<close> is a library: its hash (with the salt it draws) and its verification
  are parameters. What the model fixes is the library's argument check: both
  functions reject their promise unless the data (and the hash) are strings.
\<close>

record hasher =
  hash_fn :: "string \<Rightarrow> nat \<Rightarrow> string"
  verify_fn :: "string \<Rightarrow> string \<Rightarrow> bool"

fun bcrypt_hash :: "hasher \<Rightarrow> val \<Rightarrow> nat \<Rightarrow> string + string" where
  "bcrypt_hash H (Str s) rounds = Inr (hash_fn H s rounds)"
| "bcrypt_hash H Undefined rounds = Inl ''data and salt arguments required''"
| "bcrypt_hash H Null rounds = Inl ''data and salt arguments required''"
| "bcrypt_hash H (Num n) rounds = Inl ''data must be a string or Buffer and salt must either be a salt string or a number of rounds''"

fun bcrypt_compare :: "hasher \<Rightarrow> val \<Rightarrow> val \<Rightarrow> string + bool" where
  "bcrypt_compare H (Str d) (Str h) = Inr (verify_fn H d h)"
| "bcrypt_compare H Undefined h = Inl ''data and hash arguments required''"
| "bcrypt_compare H Null h = Inl ''data and hash arguments required''"
| "bcrypt_compare H d Undefined = Inl ''data and hash arguments required''"
| "bcrypt_compare H d Null = Inl ''data and hash arguments required''"
| "bcrypt_compare H d h = Inl ''data and hash must be strings''"

section \<open>Responses\<close>

text \<open>
  The body of a response: \<^verbatim>\<open>res.send(text)\<close> or \<^verbatim>\<open>res.json(...)\<close> of one of the
  shapes the handlers build. \<open>JRow None\<close> is \<^verbatim>\<open>res.json(undefined)\<close>, what
  \<^verbatim>\<open>rows[0]\<close> of an empty result gives.
\<close>

datatype body =
  Text string
| JRow "row option"
| JRows "row list"
| JMsg bool string
| JLogin row bool string
| JExercise bool string "row option"

type_synonym response = "nat \<times> body"

text \<open>\<^verbatim>\<open>rows[0]\<close>.\<close>

fun first_row :: "row list \<Rightarrow> row option" where
  "first_row [] = None"
| "first_row (r # _) = Some r"

text \<open>\<^verbatim>\<open>user.password\<close> of a result row.\<close>

fun password_of :: "row \<Rightarrow> val" where
  "password_of (UserRow u) = password u"
| "password_of _ = Undefined"

section \<open>The request handlers\<close>

text \<open>
  A handler takes the request's parameters and the world and returns the
  response it sends, if it sends one, and the world after it. \<open>None\<close> is an
  \<^verbatim>\<open>async\<close> handler whose promise rejects before any \<^verbatim>\<open>res\<close> call.
\<close>

text \<open>\<^verbatim>\<open>app.get('/')\<close>\<close>

definition root :: "world \<Rightarrow> response option \<times> world" where
  "root w = (Some (200, Text ''Lift Track API!''), w)"

text \<open>\<^verbatim>\<open>app.post('/api/users/register')\<close>: the hash is awaited before the \<^verbatim>\<open>try\<close>.\<close>

definition register :: "hasher \<Rightarrow> val \<Rightarrow> val \<Rightarrow> world \<Rightarrow> response option \<times> world" where
  "register H name pw w =
     (case bcrypt_hash H pw 10 of
        Inl err \<Rightarrow> (None, w)
      | Inr hashedPassword \<Rightarrow>
          (case pool_query (InsertUser name (Str hashedPassword)) w of
             (Inl err, w') \<Rightarrow> (Some (500, Text ''Internal Server Error''), w')
           | (Inr rows, w') \<Rightarrow> (Some (201, JRow (first_row rows)), w')))"

text \<open>\<^verbatim>\<open>app.post('/api/users/login')\<close>\<close>

definition login :: "hasher \<Rightarrow> val \<Rightarrow> val \<Rightarrow> world \<Rightarrow> response option \<times> world" where
  "login H name pw w =
     (case pool_query (SelectUser name) w of
        (Inl err, w') \<Rightarrow> (Some (500, JMsg False ''Internal Server Error''), w')
      | (Inr rows, w') \<Rightarrow>
          (case rows of
             usr # _ \<Rightarrow>
               (case bcrypt_compare H pw (password_of usr) of
                  Inl err \<Rightarrow> (Some (500, JMsg False ''Internal Server Error''), w')
                | Inr isPasswordMatch \<Rightarrow>
                    if isPasswordMatch
                    then (Some (200, JLogin usr True ''Login successful''), w')
                    else (Some (401, JMsg False ''Incorrect password''), w'))
           | [] \<Rightarrow> (Some (404, JMsg False ''User not found''), w')))"

text \<open>\<^verbatim>\<open>app.post('/api/workout-plans')\<close>\<close>

definition create_workout_plan :: "nat \<Rightarrow> val \<Rightarrow> val \<Rightarrow> world \<Rightarrow> response option \<times> world" where
  "create_workout_plan u name descr w =
     (case pool_query (InsertPlan u name descr) w of
        (Inl err, w') \<Rightarrow> (Some (500, JMsg False ''Internal Server Error''), w')
      | (Inr rows, w') \<Rightarrow> (Some (201, JRow (first_row rows)), w'))"

text \<open>\<^verbatim>\<open>app.get('/api/workout-plans/:user_id')\<close>\<close>

definition get_workout_plans :: "nat \<Rightarrow> world \<Rightarrow> response option \<times> world" where
  "get_workout_plans u w =
     (case pool_query (SelectPlans u) w of
        (Inl err, w') \<Rightarrow> (Some (500, JMsg False ''Internal Server Error''), w')
      | (Inr workoutPlans, w') \<Rightarrow> (Some (200, JRows workoutPlans), w'))"

text \<open>
  \<^verbatim>\<open>app.delete('/api/workout-plans/:planId')\<close>. \<open>delete_catch\<close> is the \<^verbatim>\<open>catch\<close>
  block: it awaits the \<^verbatim>\<open>ROLLBACK\<close> before it responds, so a rejected
  \<^verbatim>\<open>ROLLBACK\<close> leaves the handler without a response.
\<close>

definition delete_catch :: "world \<Rightarrow> response option \<times> world" where
  "delete_catch w =
     (case pool_query Rollback w of
        (Inl err, w') \<Rightarrow> (None, w')
      | (Inr _, w') \<Rightarrow> (Some (500, JMsg False ''Internal Server Error''), w'))"

text \<open>The template literal of the confirmation: the segment's text as it came.\<close>

definition deleted_message :: "segment \<Rightarrow> string" where
  "deleted_message planId =
     ''Workout plan with ID '' @ seg_text planId @
     '' and associated exercises deleted successfully.''"

definition delete_workout_plan :: "segment \<Rightarrow> world \<Rightarrow> response option \<times> world" where
  "delete_workout_plan planId w =
     (case pool_query Begin w of
        (Inl err, w1) \<Rightarrow> delete_catch w1
      | (Inr _, w1) \<Rightarrow>
     (case pool_query (DeleteExercises (seg_key planId)) w1 of
        (Inl err, w2) \<Rightarrow> delete_catch w2
      | (Inr _, w2) \<Rightarrow>
     (case pool_query (DeletePlan (seg_key planId)) w2 of
        (Inl err, w3) \<Rightarrow> delete_catch w3
      | (Inr deleteWorkoutPlanResult, w3) \<Rightarrow>
     (case pool_query Commit w3 of
        (Inl err, w4) \<Rightarrow> delete_catch w4
      | (Inr _, w4) \<Rightarrow>
          if length deleteWorkoutPlanResult = 0
          then (Some (404, JMsg False ''Workout plan not found.''), w4)
          else (Some (200, JMsg True (deleted_message planId)), w4)))))"

text \<open>\<^verbatim>\<open>app.post('/api/exercises/:planId')\<close>\<close>

definition add_exercise ::
  "nat \<Rightarrow> val \<Rightarrow> val \<Rightarrow> val \<Rightarrow> val \<Rightarrow> world \<Rightarrow> response option \<times> world" where
  "add_exercise planId name s r n w =
     (case pool_query (InsertExercise planId name s r n) w of
        (Inl err, w') \<Rightarrow> (Some (500, JMsg False ''Internal Server Error''), w')
      | (Inr insertedExercise, w') \<Rightarrow>
          (Some (201, JExercise True ''Exercise added to workout plan successfully.''
                        (first_row insertedExercise)), w'))"

text \<open>\<^verbatim>\<open>app.get('/api/exercises/:planId')\<close>\<close>

definition get_exercises :: "nat \<Rightarrow> world \<Rightarrow> response option \<times> world" where
  "get_exercises planId w =
     (case pool_query (SelectExercises planId) w of
        (Inl err, w') \<Rightarrow> (Some (500, JMsg False ''Internal Server Error''), w')
      | (Inr exercisesResult, w') \<Rightarrow> (Some (200, JRows exercisesResult), w'))"

section \<open>Worlds and runs used in the statements\<close>

text \<open>A store with empty tables, every client outside a transaction, and a given schedule.\<close>

definition init_world :: "(conn \<times> store_error option) list \<Rightarrow> world" where
  "init_world sc =
     \<lparr>committed = \<lparr>users = [], plans = [], exercises = []\<rparr>,
      txn = (\<lambda>_. Idle),
      next_user_id = 1, next_plan_id = 1, next_exercise_id = 1,
      sched = sc, issued = []\<rparr>"

text \<open>The world after a list of \<^verbatim>\<open>pool.query\<close> calls, one after the other.\<close>

definition world_after_all :: "stmt list \<Rightarrow> world \<Rightarrow> world" where
  "world_after_all ss w = foldl (\<lambda>acc s. world_after s acc) w ss"

text \<open>
  Worlds reached from the empty store by handler invocations, with the schedule
  \<open>sc\<close> still to come: one plan; one plan with one exercise; one registered user.
  \<open>segment_1\<close> and \<open>segment_7\<close> are the path segments \<^verbatim>\<open>/1\<close> and \<^verbatim>\<open>/7\<close>.
\<close>

definition planned :: "(conn \<times> store_error option) list \<Rightarrow> world" where
  "planned sc = snd (create_workout_plan 1 (Str ''legs'') Null (init_world ((0, None) # sc)))"

definition stocked :: "(conn \<times> store_error option) list \<Rightarrow> world" where
  "stocked sc =
     snd (add_exercise 1 (Str ''squat'') (Num ''3'') (Num ''10'') Undefined
            (planned ((0, None) # sc)))"

definition segment_1 :: segment where
  "segment_1 = \<lparr>seg_text = ''1'', seg_key = 1\<rparr>"

definition segment_7 :: segment where
  "segment_7 = \<lparr>seg_text = ''7'', seg_key = 7\<rparr>"

text \<open>
  The world after \<^verbatim>\<open>DELETE /api/workout-plans/1\<close> on the stocked store, served with
  \<^verbatim>\<open>BEGIN\<close> and the plan-delete on client 0 and the exercise-delete and \<^verbatim>\<open>COMMIT\<close>
  on client 1.
\<close>

definition split_deleted :: "(conn \<times> store_error option) list \<Rightarrow> world" where
  "split_deleted sc =
     snd (delete_workout_plan segment_1
            (stocked ((0, None) # (1, None) # (0, None) # (1, None) # sc)))"

definition example_hasher :: hasher where
  "example_hasher =
     \<lparr>hash_fn = (\<lambda>s rounds. ''bcrypt:'' @ s), verify_fn = (\<lambda>d h. h = ''bcrypt:'' @ d)\<rparr>"

definition enrolled :: "(conn \<times> store_error option) list \<Rightarrow> world" where
  "enrolled sc =
     snd (register example_hasher (Str ''alice'') (Str ''secret'') (init_world ((0, None) # sc)))"

text \<open>
  Two predicates for the proofs about deleting a plan that does not exist:
  the store accepts the next \<open>n\<close> statements; and no row refers to plan \<open>p\<close>,
  while every client is outside a transaction or has pending only deletes for \<open>p\<close>.
\<close>

definition accepts :: "nat \<Rightarrow> world \<Rightarrow> bool" where
  "accepts n w = (\<forall>ev \<in> set (take n (sched w)). snd ev = None)"

definition quiet :: "nat \<Rightarrow> world \<Rightarrow> bool" where
  "quiet p w =
     ((\<forall>r \<in> set (plans (committed w)). plan_id r \<noteq> p) \<and>
      (\<forall>e \<in> set (exercises (committed w)). ex_plan_id e \<noteq> p) \<and>
      (\<forall>c. txn w c = Idle \<or>
           (\<exists>ws. txn w c = InTxn ws \<and> set ws \<subseteq> {DelExercises p, DelPlan p})))"

section \<open>Facts about \<^verbatim>\<open>pool.query\<close>\<close>

lemmas eval_defs =
  init_world_def create_workout_plan_def add_exercise_def get_exercises_def
  get_workout_plans_def delete_workout_plan_def delete_catch_def register_def login_def
  pool_query_def peek_def ends_txn_def abort_def do_write_def view_def apply_writes_def
  world_after_def sql_eq_def summary_def segment_1_def segment_7_def Let_def

lemma issued_do_write [simp]: "issued (do_write c x w) = issued w"
  by (simp add: do_write_def split: txn_state.splits)

lemma sched_do_write [simp]: "sched (do_write c x w) = sched w"
  by (simp add: do_write_def split: txn_state.splits)

lemma counters_do_write [simp]:
  "next_user_id (do_write c x w) = next_user_id w"
  "next_plan_id (do_write c x w) = next_plan_id w"
  "next_exercise_id (do_write c x w) = next_exercise_id w"
  by (simp_all add: do_write_def split: txn_state.splits)

lemma issued_run [simp]: "issued (snd (run c s w)) = issued w"
  by (cases s) (simp_all add: Let_def split: txn_state.splits)

lemma sched_run [simp]: "sched (snd (run c s w)) = sched w"
  by (cases s) (simp_all add: Let_def split: txn_state.splits)

lemma issued_abort [simp]: "issued (abort c w) = issued w"
  by (simp add: abort_def split: txn_state.splits)

lemma sched_abort [simp]: "sched (abort c w) = sched w"
  by (simp add: abort_def split: txn_state.splits)

lemma run_frame: "run c s w = (rows, w') \<Longrightarrow> issued w' = issued w \<and> sched w' = sched w"
  using issued_run [of c s w] sched_run [of c s w] by simp

text \<open>Every call sends exactly one statement and uses up one entry of the schedule.\<close>

lemma issued_pool_query: "issued (snd (pool_query s w)) = issued w @ [(fst (peek w), s)]"
  by (auto simp: pool_query_def Let_def split: option.splits prod.splits dest: run_frame)

lemma issued_pool_queryD:
  "pool_query s w = (r, w') \<Longrightarrow> issued w' = issued w @ [(fst (peek w), s)]"
  using issued_pool_query [of s w] by simp

lemma sched_pool_query: "sched (snd (pool_query s w)) = tl (sched w)"
  by (auto simp: pool_query_def Let_def split: option.splits prod.splits dest: run_frame)

lemma pool_queryI: "fst (pool_query s w) = r \<Longrightarrow> pool_query s w = (r, world_after s w)"
  by (simp add: world_after_def prod_eq_iff)

lemma view_frame [simp]: "view (w\<lparr>sched := sc, issued := iss\<rparr>) c = view w c"
  by (simp add: view_def split: txn_state.splits)

lemma pool_query_accepted:
  assumes "peek w = (c, None)" and "txn w c \<noteq> Aborted"
  shows "pool_query s w =
           (Inr (fst (run c s (w\<lparr>sched := tl (sched w), issued := issued w @ [(c, s)]\<rparr>))),
            snd (run c s (w\<lparr>sched := tl (sched w), issued := issued w @ [(c, s)]\<rparr>)))"
  using assms by (simp add: pool_query_def Let_def split: prod.splits)

lemma pool_query_rejected: "peek w = (c, Some e) \<Longrightarrow> fst (pool_query s w) = Inl e"
  by (simp add: pool_query_def Let_def)

lemma accepts_peek: "accepts (Suc n) w \<Longrightarrow> snd (peek w) = None"
  by (cases "sched w") (simp_all add: accepts_def peek_def)

lemma accepts_step: "accepts (Suc n) w \<Longrightarrow> accepts n (snd (pool_query s w))"
  by (cases "sched w") (simp_all add: accepts_def sched_pool_query)

lemma to_sql_submitted: "v \<noteq> Undefined \<Longrightarrow> to_sql v = v"
  by (cases v) simp_all

text \<open>A numeric username matches the stored text of its digits.\<close>

lemma sql_eq_number: "sql_eq (Str t) (Num t)"
  by (simp add: sql_eq_def)

section \<open>The example worlds, evaluated\<close>

lemma planned_eq:
  "planned sc =
     \<lparr>committed =
        \<lparr>users = [],
         plans = [\<lparr>plan_id = 1, user_id = 1, plan_name = Str ''legs'', description = Null\<rparr>],
         exercises = []\<rparr>,
      txn = (\<lambda>_. Idle),
      next_user_id = 1, next_plan_id = 2, next_exercise_id = 1,
      sched = sc,
      issued = [(0, InsertPlan 1 (Str ''legs'') Null)]\<rparr>"
  by (simp add: planned_def eval_defs)

lemma stocked_eq:
  "stocked sc =
     \<lparr>committed =
        \<lparr>users = [],
         plans = [\<lparr>plan_id = 1, user_id = 1, plan_name = Str ''legs'', description = Null\<rparr>],
         exercises = [\<lparr>exercise_id = 1, ex_plan_id = 1, exercise_name = Str ''squat'',
                       sets = Num ''3'', repetitions = Num ''10'', ex_notes = Null\<rparr>]\<rparr>,
      txn = (\<lambda>_. Idle),
      next_user_id = 1, next_plan_id = 2, next_exercise_id = 2,
      sched = sc,
      issued = [(0, InsertPlan 1 (Str ''legs'') Null),
                (0, InsertExercise 1 (Str ''squat'') (Num ''3'') (Num ''10'') Undefined)]\<rparr>"
  by (simp add: stocked_def planned_eq eval_defs)

lemma enrolled_eq:
  "enrolled sc =
     \<lparr>committed =
        \<lparr>users = [\<lparr>uid = 1, username = Str ''alice'', password = Str ''bcrypt:secret''\<rparr>],
         plans = [], exercises = []\<rparr>,
      txn = (\<lambda>_. Idle),
      next_user_id = 2, next_plan_id = 1, next_exercise_id = 1,
      sched = sc,
      issued = [(0, InsertUser (Str ''alice'') (Str ''bcrypt:secret''))]\<rparr>"
  by (simp add: enrolled_def example_hasher_def eval_defs)

lemma split_deleted_eq:
  "split_deleted sc =
     \<lparr>committed =
        \<lparr>users = [],
         plans = [\<lparr>plan_id = 1, user_id = 1, plan_name = Str ''legs'', description = Null\<rparr>],
         exercises = []\<rparr>,
      txn = (\<lambda>_. Idle)(0 := InTxn [DelPlan 1], 1 := Idle),
      next_user_id = 1, next_plan_id = 2, next_exercise_id = 2,
      sched = sc,
      issued = [(0, InsertPlan 1 (Str ''legs'') Null),
                (0, InsertExercise 1 (Str ''squat'') (Num ''3'') (Num ''10'') Undefined),
                (0, Begin), (1, DeleteExercises 1), (0, DeletePlan 1), (1, Commit)]\<rparr>"
  by (simp add: split_deleted_def stocked_eq eval_defs)

lemma peek_cong: "sched a = sched b \<Longrightarrow> peek a = peek b"
  by (simp add: peek_def)

section \<open>Deleting on one client\<close>

text \<open>
  When the pool happens to serve the four statements of a deletion on one client
  that is outside a transaction, the deletion is atomic: both deletes become
  durable at the \<^verbatim>\<open>COMMIT\<close>, and a rejected plan-delete followed by an accepted
  \<^verbatim>\<open>ROLLBACK\<close> leaves the tables as they were.
\<close>

lemma delete_one_client:
  assumes sc: "sched w = (c, None) # (c, None) # (c, None) # (c, None) # rest"
    and idle: "txn w c = Idle"
  shows "fst (delete_workout_plan planId w) =
           Some (if filter (\<lambda>p. plan_id p = seg_key planId) (plans (committed w)) = []
                 then (404, JMsg False ''Workout plan not found.'')
                 else (200, JMsg True (deleted_message planId)))
       \<and> committed (snd (delete_workout_plan planId w)) =
           apply_write (DelPlan (seg_key planId)) (apply_write (DelExercises (seg_key planId)) (committed w))
       \<and> txn (snd (delete_workout_plan planId w)) = txn w"
  using sc idle
  by (simp add: delete_workout_plan_def pool_query_def peek_def ends_txn_def do_write_def
        view_def apply_writes_def Let_def fun_upd_idem)

lemma delete_one_client_rollback:
  assumes sc: "sched w = (c, None) # (c, None) # (c, Some e) # (c, None) # rest"
    and idle: "txn w c = Idle"
  shows "fst (delete_workout_plan planId w) = Some (500, JMsg False ''Internal Server Error'')
       \<and> committed (snd (delete_workout_plan planId w)) = committed w
       \<and> txn (snd (delete_workout_plan planId w)) = txn w"
  using sc idle
  by (simp add: delete_workout_plan_def delete_catch_def pool_query_def peek_def ends_txn_def
        do_write_def abort_def view_def apply_writes_def Let_def fun_upd_idem)

section \<open>The plan deletion handler\<close>

text \<open>
  Claim C1: whenever the store accepts the four statements, the handler for
  \<^verbatim>\<open>DELETE /api/workout-plans/:planId\<close> sends exactly \<^verbatim>\<open>BEGIN\<close>, the delete of
  the exercises of \<open>planId\<close>, the delete of the plan \<open>planId\<close> returning the deleted
  rows, and \<^verbatim>\<open>COMMIT\<close>, in this order and nothing else; the response is computed
  in the world after the \<^verbatim>\<open>COMMIT\<close>, and it is 404 with
  \<open>{success: false, message: "Workout plan not found."}\<close> when the plan-delete
  returned no row and 200 with the confirmation message otherwise.
\<close>

theorem delete_protocol:
  assumes "fst (pool_query Begin w) = Inr r1"
    and "fst (pool_query (DeleteExercises (seg_key planId)) (world_after_all [Begin] w)) = Inr r2"
    and "fst (pool_query (DeletePlan (seg_key planId))
               (world_after_all [Begin, DeleteExercises (seg_key planId)] w)) = Inr deleted"
    and "fst (pool_query Commit
               (world_after_all [Begin, DeleteExercises (seg_key planId), DeletePlan (seg_key planId)] w)) = Inr r4"
  shows "delete_workout_plan planId w =
           (Some (if length deleted = 0
                  then (404, JMsg False ''Workout plan not found.'')
                  else (200, JMsg True (deleted_message planId))),
            world_after_all [Begin, DeleteExercises (seg_key planId), DeletePlan (seg_key planId), Commit] w)
         \<and> map snd (drop (length (issued w)) (issued (snd (delete_workout_plan planId w)))) =
            [Begin, DeleteExercises (seg_key planId), DeletePlan (seg_key planId), Commit]"
proof -
  let ?w1 = "world_after Begin w"
  let ?w2 = "world_after (DeleteExercises (seg_key planId)) ?w1"
  let ?w3 = "world_after (DeletePlan (seg_key planId)) ?w2"
  let ?w4 = "world_after Commit ?w3"
  have q1: "pool_query Begin w = (Inr r1, ?w1)"
    using assms(1) by (rule pool_queryI)
  have q2: "pool_query (DeleteExercises (seg_key planId)) ?w1 = (Inr r2, ?w2)"
    using assms(2) by (intro pool_queryI) (simp add: world_after_all_def)
  have q3: "pool_query (DeletePlan (seg_key planId)) ?w2 = (Inr deleted, ?w3)"
    using assms(3) by (intro pool_queryI) (simp add: world_after_all_def)
  have q4: "pool_query Commit ?w3 = (Inr r4, ?w4)"
    using assms(4) by (intro pool_queryI) (simp add: world_after_all_def)
  have res: "delete_workout_plan planId w =
           (Some (if length deleted = 0
                  then (404, JMsg False ''Workout plan not found.'')
                  else (200, JMsg True (deleted_message planId))), ?w4)"
    by (simp add: delete_workout_plan_def q1 q2 q3 q4)
  have iss: "issued ?w4 =
      issued w @ [(fst (peek w), Begin), (fst (peek ?w1), DeleteExercises (seg_key planId)),
                  (fst (peek ?w2), DeletePlan (seg_key planId)), (fst (peek ?w3), Commit)]"
    by (simp add: world_after_def issued_pool_query)
  show ?thesis
    by (simp add: res iss world_after_all_def)
qed

text \<open>
  \<^verbatim>\<open>DELETE /api/workout-plans/1\<close> on the stocked store, every statement accepted:
  the 200 branch.
\<close>

theorem delete_protocol_witness:
  "delete_workout_plan segment_1 (stocked []) =
     (Some (200, JMsg True
        ''Workout plan with ID 1 and associated exercises deleted successfully.''),
      world_after_all [Begin, DeleteExercises 1, DeletePlan 1, Commit] (stocked []))
   \<and> map snd (drop (length (issued (stocked [])))
        (issued (snd (delete_workout_plan segment_1 (stocked []))))) =
      [Begin, DeleteExercises 1, DeletePlan 1, Commit]"
proof -
  have k: "seg_key segment_1 = 1"
    by (simp add: segment_1_def)
  have h1: "fst (pool_query Begin (stocked [])) = Inr []"
    by (simp add: stocked_eq eval_defs)
  have h2: "fst (pool_query (DeleteExercises (seg_key segment_1))
               (world_after_all [Begin] (stocked []))) = Inr []"
    by (simp add: stocked_eq eval_defs world_after_all_def)
  have h3: "fst (pool_query (DeletePlan (seg_key segment_1))
               (world_after_all [Begin, DeleteExercises (seg_key segment_1)] (stocked []))) =
            Inr [PlanRow \<lparr>plan_id = 1, user_id = 1, plan_name = Str ''legs'',
                           description = Null\<rparr>]"
    by (simp add: stocked_eq eval_defs world_after_all_def)
  have h4: "fst (pool_query Commit
               (world_after_all [Begin, DeleteExercises (seg_key segment_1),
                                 DeletePlan (seg_key segment_1)] (stocked []))) = Inr []"
    by (simp add: stocked_eq eval_defs world_after_all_def)
  note c = delete_protocol [OF h1 h2 h3 h4]
  have a: "delete_workout_plan segment_1 (stocked []) =
     (Some (200, JMsg True
        ''Workout plan with ID 1 and associated exercises deleted successfully.''),
      world_after_all [Begin, DeleteExercises 1, DeletePlan 1, Commit] (stocked []))"
    using conjunct1 [OF c] by (simp add: k deleted_message_def segment_1_def)
  have b: "map snd (drop (length (issued (stocked [])))
        (issued (snd (delete_workout_plan segment_1 (stocked []))))) =
      [Begin, DeleteExercises 1, DeletePlan 1, Commit]"
    using conjunct2 [OF c] by (simp add: k)
  show ?thesis
    by (rule conjI [OF a b])
qed

text \<open>
  Claim C2: a deletion removes the plan row and all its exercise rows in one
  atomic unit, or removes neither. The run below starts from the empty store,
  creates plan 1 and one exercise for it, and deletes plan 1 while the pool
  serves \<^verbatim>\<open>BEGIN\<close> and the plan-delete on client 0 and the exercise-delete and
  \<^verbatim>\<open>COMMIT\<close> on client 1, every statement accepted. The handler answers 200, the
  exercise is durably gone, and plan 1 is still in the committed table: its
  delete is pending in the transaction left open on client 0.
\<close>

theorem delete_split_dispatch:
  "fst (delete_workout_plan segment_1 (stocked [(0, None), (1, None), (0, None), (1, None)])) =
     Some (200, JMsg True
       ''Workout plan with ID 1 and associated exercises deleted successfully.'')
   \<and> exercises (committed (snd (delete_workout_plan segment_1
        (stocked [(0, None), (1, None), (0, None), (1, None)])))) = []
   \<and> plans (committed (snd (delete_workout_plan segment_1
        (stocked [(0, None), (1, None), (0, None), (1, None)])))) =
       [\<lparr>plan_id = 1, user_id = 1, plan_name = Str ''legs'', description = Null\<rparr>]
   \<and> txn (snd (delete_workout_plan segment_1
        (stocked [(0, None), (1, None), (0, None), (1, None)]))) 0 = InTxn [DelPlan 1]"
  by (simp add: stocked_eq eval_defs deleted_message_def)

text \<open>
  Claim C3: an error in \<^verbatim>\<open>BEGIN\<close>, a delete or \<^verbatim>\<open>COMMIT\<close> leads to a
  \<^verbatim>\<open>ROLLBACK\<close>, a 500 response and an unchanged store. Two runs on the stocked
  store. In the first the store is unreachable: \<^verbatim>\<open>BEGIN\<close> is rejected, the
  \<^verbatim>\<open>ROLLBACK\<close> in the \<^verbatim>\<open>catch\<close> block is rejected too, and the handler sends no
  response. In the second the exercise-delete is served on client 1 and the
  plan-delete, served on client 0, is rejected: the handler answers 500 after
  an accepted \<^verbatim>\<open>ROLLBACK\<close>, and the exercise is durably gone while the plan
  row survives.
\<close>

theorem delete_failure_paths:
  "delete_workout_plan segment_1 (stocked [(0, Some ''ECONNREFUSED''), (0, Some ''ECONNREFUSED'')]) =
     (None, (stocked [])\<lparr>issued := issued (stocked []) @ [(0, Begin), (0, Rollback)]\<rparr>)
   \<and> fst (delete_workout_plan segment_1 (stocked [(0, None), (1, None), (0, Some ''57014''), (1, None)])) =
       Some (500, JMsg False ''Internal Server Error'')
   \<and> map snd (drop 2 (issued (snd (delete_workout_plan segment_1
        (stocked [(0, None), (1, None), (0, Some ''57014''), (1, None)]))))) =
       [Begin, DeleteExercises 1, DeletePlan 1, Rollback]
   \<and> exercises (committed (snd (delete_workout_plan segment_1
        (stocked [(0, None), (1, None), (0, Some ''57014''), (1, None)])))) = []
   \<and> plans (committed (snd (delete_workout_plan segment_1
        (stocked [(0, None), (1, None), (0, Some ''57014''), (1, None)])))) =
       [\<lparr>plan_id = 1, user_id = 1, plan_name = Str ''legs'', description = Null\<rparr>]"
  by (simp add: stocked_eq eval_defs)

section \<open>Login\<close>

text \<open>
  Claim C4, as amended: a login request has four outcomes. When the store
  accepts the lookup: no user row that the serving connection sees matches the
  username, 404 with \<open>success: false\<close>; the password is a string and the first
  matching row's hash does not verify it, 401 with \<open>success: false\<close>; it
  verifies, 200 with \<open>success: true\<close> and the full user row; a row matches and
  the password is absent or not a string (or the stored hash is not a string),
  500 with \<open>success: false\<close>. When the store rejects the lookup, 500 with
  \<open>success: false\<close>.
\<close>

theorem login_outcomes:
  "(peek w = (c, None) \<and> txn w c \<noteq> Aborted \<longrightarrow>
      (filter (\<lambda>u. sql_eq (username u) name) (users (view w c)) = [] \<longrightarrow>
         fst (login H name pw w) = Some (404, JMsg False ''User not found''))
    \<and> (\<forall>u us p h. filter (\<lambda>u. sql_eq (username u) name) (users (view w c)) = u # us
                  \<and> pw = Str p \<and> password u = Str h \<and> \<not> verify_fn H p h \<longrightarrow>
         fst (login H name pw w) = Some (401, JMsg False ''Incorrect password''))
    \<and> (\<forall>u us p h. filter (\<lambda>u. sql_eq (username u) name) (users (view w c)) = u # us
                  \<and> pw = Str p \<and> password u = Str h \<and> verify_fn H p h \<longrightarrow>
         fst (login H name pw w) =
           Some (200, JLogin (UserRow u) True ''Login successful''))
    \<and> (\<forall>u us. filter (\<lambda>u. sql_eq (username u) name) (users (view w c)) = u # us
                  \<and> ((\<forall>p. pw \<noteq> Str p) \<or> (\<forall>h. password u \<noteq> Str h)) \<longrightarrow>
         fst (login H name pw w) = Some (500, JMsg False ''Internal Server Error'')))
   \<and> (\<forall>e. fst (pool_query (SelectUser name) w) = Inl e \<longrightarrow>
         fst (login H name pw w) = Some (500, JMsg False ''Internal Server Error''))"
proof (intro conjI impI allI)
  fix e
  assume "fst (pool_query (SelectUser name) w) = Inl e"
  then have "pool_query (SelectUser name) w = (Inl e, world_after (SelectUser name) w)"
    by (rule pool_queryI)
  then show "fst (login H name pw w) = Some (500, JMsg False ''Internal Server Error'')"
    by (simp add: login_def)
next
  let ?matching = "filter (\<lambda>u. sql_eq (username u) name) (users (view w c))"
  assume a: "peek w = (c, None) \<and> txn w c \<noteq> Aborted"
  then have "fst (pool_query (SelectUser name) w) = Inr (map UserRow ?matching)"
    by (simp add: pool_query_accepted)
  then have sel: "pool_query (SelectUser name) w =
      (Inr (map UserRow ?matching), world_after (SelectUser name) w)"
    by (rule pool_queryI)
  {
    assume "?matching = []"
    then show "fst (login H name pw w) = Some (404, JMsg False ''User not found'')"
      by (simp add: login_def sel)
  next
    fix u us p h
    assume "?matching = u # us \<and> pw = Str p \<and> password u = Str h \<and> \<not> verify_fn H p h"
    then show "fst (login H name pw w) = Some (401, JMsg False ''Incorrect password'')"
      by (simp add: login_def sel)
  next
    fix u us p h
    assume "?matching = u # us \<and> pw = Str p \<and> password u = Str h \<and> verify_fn H p h"
    then show "fst (login H name pw w) =
        Some (200, JLogin (UserRow u) True ''Login successful'')"
      by (simp add: login_def sel)
  next
    fix u us
    assume b: "?matching = u # us \<and> ((\<forall>p. pw \<noteq> Str p) \<or> (\<forall>h. password u \<noteq> Str h))"
    then have "\<exists>err. bcrypt_compare H pw (password u) = Inl err"
      by (cases pw; cases "password u") auto
    then obtain err where "bcrypt_compare H pw (password u) = Inl err" ..
    then show "fst (login H name pw w) = Some (500, JMsg False ''Internal Server Error'')"
      using b by (simp add: login_def sel)
  }
qed

text \<open>
  After alice has registered: an unknown user, a wrong password, the right
  password, a request without a password, and a lookup that the store rejects.
\<close>

theorem login_outcomes_witness:
  "fst (login example_hasher (Str ''bob'') (Str ''secret'') (enrolled [])) =
     Some (404, JMsg False ''User not found'')
   \<and> fst (login example_hasher (Str ''alice'') (Str ''wrong'') (enrolled [])) =
     Some (401, JMsg False ''Incorrect password'')
   \<and> fst (login example_hasher (Str ''alice'') (Str ''secret'') (enrolled [])) =
     Some (200, JLogin (UserRow \<lparr>uid = 1, username = Str ''alice'',
                                   password = Str ''bcrypt:secret''\<rparr>) True ''Login successful'')
   \<and> fst (login example_hasher (Str ''alice'') Undefined (enrolled [])) =
     Some (500, JMsg False ''Internal Server Error'')
   \<and> fst (login example_hasher (Str ''alice'') (Str ''secret'')
        (enrolled [(0, Some ''ECONNRESET'')])) =
     Some (500, JMsg False ''Internal Server Error'')"
proof -
  have pk: "peek (enrolled []) = (0, None) \<and> txn (enrolled []) 0 \<noteq> Aborted"
    by (simp add: enrolled_eq peek_def)
  have m1: "filter (\<lambda>u. sql_eq (username u) (Str ''bob'')) (users (view (enrolled []) 0)) = []"
    by (simp add: enrolled_eq view_def sql_eq_def)
  have m2: "filter (\<lambda>u. sql_eq (username u) (Str ''alice'')) (users (view (enrolled []) 0)) =
      [\<lparr>uid = 1, username = Str ''alice'', password = Str ''bcrypt:secret''\<rparr>]"
    by (simp add: enrolled_eq view_def sql_eq_def)
  note t = conjunct1 [OF login_outcomes, THEN mp, OF pk]
  have a: "fst (login example_hasher (Str ''bob'') (Str ''secret'') (enrolled [])) =
     Some (404, JMsg False ''User not found'')"
    using conjunct1 [OF t] m1 by blast
  have b: "fst (login example_hasher (Str ''alice'') (Str ''wrong'') (enrolled [])) =
     Some (401, JMsg False ''Incorrect password'')"
    using conjunct1 [OF conjunct2 [OF t], of "Str ''alice''" "Str ''wrong''" example_hasher] m2
    by (simp add: example_hasher_def)
  have c: "fst (login example_hasher (Str ''alice'') (Str ''secret'') (enrolled [])) =
     Some (200, JLogin (UserRow \<lparr>uid = 1, username = Str ''alice'',
                                   password = Str ''bcrypt:secret''\<rparr>) True ''Login successful'')"
    using conjunct1 [OF conjunct2 [OF conjunct2 [OF t]], of "Str ''alice''" "Str ''secret''"
            example_hasher] m2
    by (simp add: example_hasher_def)
  have d: "fst (login example_hasher (Str ''alice'') Undefined (enrolled [])) =
     Some (500, JMsg False ''Internal Server Error'')"
    using conjunct2 [OF conjunct2 [OF conjunct2 [OF t]], of "Str ''alice''" Undefined
            example_hasher] m2
    by simp
  have rej: "fst (pool_query (SelectUser (Str ''alice'')) (enrolled [(0, Some ''ECONNRESET'')])) =
      Inl ''ECONNRESET''"
    by (rule pool_query_rejected) (simp add: enrolled_eq peek_def)
  have e: "fst (login example_hasher (Str ''alice'') (Str ''secret'')
        (enrolled [(0, Some ''ECONNRESET'')])) =
     Some (500, JMsg False ''Internal Server Error'')"
    using conjunct2 [OF login_outcomes [of "enrolled [(0, Some ''ECONNRESET'')]" 0
            "Str ''alice''" example_hasher "Str ''secret''"]] rej
    by blast
  show ?thesis
    by (intro conjI a b c d e)
qed

text \<open>
  The claim as written names three outcomes for every login request. A request
  for the registered user alice that carries no password has a fourth: the
  lookup is accepted, a row matches, the verification rejects inside the
  \<^verbatim>\<open>try\<close> block, and the \<^verbatim>\<open>catch\<close> block answers 500.
\<close>

theorem login_fourth_outcome_counterexample:
  "filter (\<lambda>u. sql_eq (username u) (Str ''alice'')) (users (committed (enrolled []))) =
     [\<lparr>uid = 1, username = Str ''alice'', password = Str ''bcrypt:secret''\<rparr>]
   \<and> fst (pool_query (SelectUser (Str ''alice'')) (enrolled [])) =
     Inr [UserRow \<lparr>uid = 1, username = Str ''alice'', password = Str ''bcrypt:secret''\<rparr>]
   \<and> fst (login example_hasher (Str ''alice'') Undefined (enrolled [])) =
     Some (500, JMsg False ''Internal Server Error'')"
  by (simp add: enrolled_eq eval_defs)

section \<open>Deleting a plan that does not exist\<close>

lemma apply_write_noop:
  assumes "\<forall>r \<in> set (plans d). plan_id r \<noteq> p"
    and "\<forall>e \<in> set (exercises d). ex_plan_id e \<noteq> p"
    and "x \<in> {DelExercises p, DelPlan p}"
  shows "apply_write x d = d"
proof -
  have "filter (\<lambda>e. ex_plan_id e \<noteq> p) (exercises d) = exercises d"
    using assms(2) by (simp add: filter_id_conv)
  moreover have "filter (\<lambda>r. plan_id r \<noteq> p) (plans d) = plans d"
    using assms(1) by (simp add: filter_id_conv)
  ultimately show ?thesis using assms(3) by auto
qed

lemma apply_writes_noop:
  assumes "\<forall>r \<in> set (plans d). plan_id r \<noteq> p"
    and "\<forall>e \<in> set (exercises d). ex_plan_id e \<noteq> p"
    and "set ws \<subseteq> {DelExercises p, DelPlan p}"
  shows "apply_writes ws d = d"
  using assms(3)
proof (induction ws rule: rev_induct)
  case Nil
  then show ?case by (simp add: apply_writes_def)
next
  case (snoc x xs)
  then have "apply_writes xs d = d" and "x \<in> {DelExercises p, DelPlan p}" by auto
  then show ?case
    using apply_write_noop [OF assms(1,2), of x] by (simp add: apply_writes_def)
qed

lemma quiet_cases:
  "quiet p w \<Longrightarrow>
   txn w c = Idle \<or> (\<exists>ws. txn w c = InTxn ws \<and> set ws \<subseteq> {DelExercises p, DelPlan p})"
  unfolding quiet_def by blast

lemma quiet_rows:
  assumes "quiet p w"
  shows "\<forall>r \<in> set (plans (committed w)). plan_id r \<noteq> p"
    and "\<forall>e \<in> set (exercises (committed w)). ex_plan_id e \<noteq> p"
  using assms unfolding quiet_def by blast+

lemma quiet_view:
  assumes q: "quiet p w"
  shows "view w c = committed w"
proof -
  from quiet_cases [OF q, of c] show ?thesis
  proof
    assume "txn w c = Idle"
    then show ?thesis by (simp add: view_def)
  next
    assume "\<exists>ws. txn w c = InTxn ws \<and> set ws \<subseteq> {DelExercises p, DelPlan p}"
    then obtain ws where "txn w c = InTxn ws" "set ws \<subseteq> {DelExercises p, DelPlan p}"
      by blast
    then show ?thesis
      using apply_writes_noop [OF quiet_rows [OF q]] by (simp add: view_def)
  qed
qed

lemma quiet_not_aborted: "quiet p w \<Longrightarrow> txn w c \<noteq> Aborted"
  using quiet_cases [of p w c] by auto

lemma quiet_frame: "quiet p (w\<lparr>sched := sc, issued := iss\<rparr>) = quiet p w"
  by (simp add: quiet_def)

lemma quiet_txn_upd:
  assumes "quiet p w"
    and "t = Idle \<or> (\<exists>ws. t = InTxn ws \<and> set ws \<subseteq> {DelExercises p, DelPlan p})"
  shows "quiet p (w\<lparr>txn := (txn w)(c := t)\<rparr>)"
  using assms unfolding quiet_def by auto

lemma quiet_do_write:
  assumes q: "quiet p w" and x: "x \<in> {DelExercises p, DelPlan p}"
  shows "quiet p (do_write c x w) \<and> committed (do_write c x w) = committed w"
proof -
  have noop: "apply_write x (committed w) = committed w"
    by (rule apply_write_noop [OF quiet_rows [OF q] x])
  from quiet_cases [OF q, of c] show ?thesis
  proof
    assume "txn w c = Idle"
    then show ?thesis using q by (simp add: do_write_def noop del: apply_write.simps)
  next
    assume "\<exists>ws. txn w c = InTxn ws \<and> set ws \<subseteq> {DelExercises p, DelPlan p}"
    then obtain ws where intxn: "txn w c = InTxn ws"
      and sub: "set ws \<subseteq> {DelExercises p, DelPlan p}" by blast
    have "quiet p (w\<lparr>txn := (txn w)(c := InTxn (ws @ [x]))\<rparr>)"
      by (rule quiet_txn_upd [OF q]) (use sub x in simp)
    then show ?thesis using intxn by (simp add: do_write_def)
  qed
qed

lemma quiet_begin:
  assumes q: "quiet p w"
  shows "quiet p (snd (run c Begin w)) \<and> committed (snd (run c Begin w)) = committed w"
proof -
  have "quiet p (w\<lparr>txn := (txn w)(c := InTxn [])\<rparr>)"
    by (rule quiet_txn_upd [OF q]) simp
  then show ?thesis using q by (simp split: txn_state.splits)
qed

lemma quiet_commit:
  assumes q: "quiet p w"
  shows "quiet p (snd (run c Commit w)) \<and> committed (snd (run c Commit w)) = committed w"
proof -
  have idle: "quiet p (w\<lparr>txn := (txn w)(c := Idle)\<rparr>)"
    by (rule quiet_txn_upd [OF q]) simp
  from quiet_cases [OF q, of c] show ?thesis
  proof
    assume "txn w c = Idle"
    then show ?thesis using idle by simp
  next
    assume "\<exists>ws. txn w c = InTxn ws \<and> set ws \<subseteq> {DelExercises p, DelPlan p}"
    then obtain ws where intxn: "txn w c = InTxn ws"
      and sub: "set ws \<subseteq> {DelExercises p, DelPlan p}" by blast
    have "apply_writes ws (committed w) = committed w"
      by (rule apply_writes_noop [OF quiet_rows [OF q] sub])
    then show ?thesis using intxn idle by simp
  qed
qed

lemma quiet_run:
  assumes q: "quiet p w" and s: "s \<in> {Begin, DeleteExercises p, DeletePlan p, Commit}"
  shows "fst (run c s w) = [] \<and> quiet p (snd (run c s w)) \<and>
         committed (snd (run c s w)) = committed w \<and>
         next_user_id (snd (run c s w)) = next_user_id w \<and>
         next_plan_id (snd (run c s w)) = next_plan_id w \<and>
         next_exercise_id (snd (run c s w)) = next_exercise_id w"
proof -
  have nomatch: "filter (\<lambda>r. plan_id r = p) (plans (view w c)) = []"
    using quiet_rows(1) [OF q] by (simp add: quiet_view [OF q] filter_empty_conv)
  consider "s = Begin" | "s = DeleteExercises p" | "s = DeletePlan p" | "s = Commit"
    using s by blast
  then show ?thesis
  proof cases
    case 1
    then show ?thesis using quiet_begin [OF q, of c] by (simp split: txn_state.splits)
  next
    case 2
    then show ?thesis using quiet_do_write [OF q, of "DelExercises p" c] by simp
  next
    case 3
    then show ?thesis using quiet_do_write [OF q, of "DelPlan p" c] nomatch by simp
  next
    case 4
    then show ?thesis using quiet_commit [OF q, of c] by (simp split: txn_state.splits)
  qed
qed

lemma quiet_step:
  assumes q: "quiet p w" and acc: "snd (peek w) = None"
    and s: "s \<in> {Begin, DeleteExercises p, DeletePlan p, Commit}"
  shows "fst (pool_query s w) = Inr [] \<and> quiet p (snd (pool_query s w)) \<and>
         committed (snd (pool_query s w)) = committed w \<and>
         next_user_id (snd (pool_query s w)) = next_user_id w \<and>
         next_plan_id (snd (pool_query s w)) = next_plan_id w \<and>
         next_exercise_id (snd (pool_query s w)) = next_exercise_id w"
proof -
  obtain c where pk: "peek w = (c, None)"
    using acc by (cases "peek w") simp
  let ?w1 = "w\<lparr>sched := tl (sched w), issued := issued w @ [(c, s)]\<rparr>"
  have q1: "quiet p ?w1" using q by (simp add: quiet_frame)
  have pq: "pool_query s w = (Inr (fst (run c s ?w1)), snd (run c s ?w1))"
    by (rule pool_query_accepted [OF pk quiet_not_aborted [OF q]])
  show ?thesis
    using quiet_run [OF q1 s, of c] by (simp add: pq)
qed

text \<open>
  A request for a plan that does not exist, meeting a store in which every
  client is outside a transaction and no row refers to the plan: whichever
  clients serve the four accepted statements, the answer is 404 and the tables
  and key sequences stay as they were.
\<close>

lemma delete_missing_plan_idle:
  assumes np: "\<forall>r \<in> set (plans (committed w)). plan_id r \<noteq> seg_key planId"
    and ne: "\<forall>e \<in> set (exercises (committed w)). ex_plan_id e \<noteq> seg_key planId"
    and idle: "\<forall>c. txn w c = Idle"
    and acc: "\<forall>ev \<in> set (take 4 (sched w)). snd ev = None"
  shows "fst (delete_workout_plan planId w) = Some (404, JMsg False ''Workout plan not found.'')
       \<and> committed (snd (delete_workout_plan planId w)) = committed w
       \<and> next_user_id (snd (delete_workout_plan planId w)) = next_user_id w
       \<and> next_plan_id (snd (delete_workout_plan planId w)) = next_plan_id w
       \<and> next_exercise_id (snd (delete_workout_plan planId w)) = next_exercise_id w"
proof -
  let ?w1 = "world_after Begin w"
  let ?w2 = "world_after (DeleteExercises (seg_key planId)) ?w1"
  let ?w3 = "world_after (DeletePlan (seg_key planId)) ?w2"
  let ?w4 = "world_after Commit ?w3"
  have q0: "quiet (seg_key planId) w" using np ne idle by (simp add: quiet_def)
  have a0: "accepts 4 w" using acc by (simp add: accepts_def)
  have a1: "accepts 3 ?w1" unfolding world_after_def
    by (rule accepts_step) (use a0 in \<open>simp add: eval_nat_numeral\<close>)
  have a2: "accepts 2 ?w2" unfolding world_after_def [of "DeleteExercises (seg_key planId)"]
    by (rule accepts_step) (use a1 in \<open>simp add: eval_nat_numeral\<close>)
  have a3: "accepts 1 ?w3" unfolding world_after_def [of "DeletePlan (seg_key planId)"]
    by (rule accepts_step) (use a2 in \<open>simp add: eval_nat_numeral\<close>)
  have s1: "fst (pool_query Begin w) = Inr [] \<and> quiet (seg_key planId) ?w1
     \<and> committed ?w1 = committed w
     \<and> next_user_id ?w1 = next_user_id w \<and> next_plan_id ?w1 = next_plan_id w
     \<and> next_exercise_id ?w1 = next_exercise_id w"
    unfolding world_after_def
    by (rule quiet_step [OF q0 accepts_peek]) (use a0 in \<open>simp_all add: eval_nat_numeral\<close>)
  have s2: "fst (pool_query (DeleteExercises (seg_key planId)) ?w1) = Inr [] \<and> quiet (seg_key planId) ?w2
     \<and> committed ?w2 = committed ?w1
     \<and> next_user_id ?w2 = next_user_id ?w1 \<and> next_plan_id ?w2 = next_plan_id ?w1
     \<and> next_exercise_id ?w2 = next_exercise_id ?w1"
    unfolding world_after_def [of "DeleteExercises (seg_key planId)"]
    by (rule quiet_step [OF _ accepts_peek]) (use s1 a1 in \<open>simp_all add: eval_nat_numeral\<close>)
  have s3: "fst (pool_query (DeletePlan (seg_key planId)) ?w2) = Inr [] \<and> quiet (seg_key planId) ?w3
     \<and> committed ?w3 = committed ?w2
     \<and> next_user_id ?w3 = next_user_id ?w2 \<and> next_plan_id ?w3 = next_plan_id ?w2
     \<and> next_exercise_id ?w3 = next_exercise_id ?w2"
    unfolding world_after_def [of "DeletePlan (seg_key planId)"]
    by (rule quiet_step [OF _ accepts_peek]) (use s2 a2 in \<open>simp_all add: eval_nat_numeral\<close>)
  have s4: "fst (pool_query Commit ?w3) = Inr [] \<and> quiet (seg_key planId) ?w4
     \<and> committed ?w4 = committed ?w3
     \<and> next_user_id ?w4 = next_user_id ?w3 \<and> next_plan_id ?w4 = next_plan_id ?w3
     \<and> next_exercise_id ?w4 = next_exercise_id ?w3"
    unfolding world_after_def [of "Commit"]
    by (rule quiet_step [OF _ accepts_peek]) (use s3 a3 in \<open>simp_all add: eval_nat_numeral\<close>)
  have q1: "pool_query Begin w = (Inr [], ?w1)"
    using s1 by (simp add: world_after_def prod_eq_iff)
  have q2: "pool_query (DeleteExercises (seg_key planId)) ?w1 = (Inr [], ?w2)"
    using s2 by (simp add: world_after_def [of "DeleteExercises (seg_key planId)"] prod_eq_iff)
  have q3: "pool_query (DeletePlan (seg_key planId)) ?w2 = (Inr [], ?w3)"
    using s3 by (simp add: world_after_def [of "DeletePlan (seg_key planId)"] prod_eq_iff)
  have q4: "pool_query Commit ?w3 = (Inr [], ?w4)"
    using s4 by (simp add: world_after_def [of "Commit"] prod_eq_iff)
  have res: "delete_workout_plan planId w =
      (Some (404, JMsg False ''Workout plan not found.''), ?w4)"
    by (simp add: delete_workout_plan_def q1 q2 q3 q4)
  show ?thesis
    using s1 s2 s3 s4 by (simp add: res)
qed

text \<open>
  Claim C5: for a \<open>planId\<close> that matches no plan row, the delete endpoint answers
  404 and leaves the store unchanged. The run below starts in the world that
  the split deletion of plan 1 left behind (plan 1 still committed, its delete
  pending on client 0) and serves \<^verbatim>\<open>DELETE /api/workout-plans/7\<close> on client 0,
  every statement accepted. No plan row has the key 7 and the handler answers
  404, but its \<^verbatim>\<open>COMMIT\<close> makes the pending delete durable: plan 1 is gone.
\<close>

theorem delete_missing_after_split:
  "filter (\<lambda>p. plan_id p = seg_key segment_7) (plans (committed (split_deleted []))) = []
   \<and> plans (committed (split_deleted [])) =
       [\<lparr>plan_id = 1, user_id = 1, plan_name = Str ''legs'', description = Null\<rparr>]
   \<and> fst (delete_workout_plan segment_7 (split_deleted [])) =
       Some (404, JMsg False ''Workout plan not found.'')
   \<and> drop 6 (issued (snd (delete_workout_plan segment_7 (split_deleted [])))) =
       [(0, Begin), (0, DeleteExercises 7), (0, DeletePlan 7), (0, Commit)]
   \<and> plans (committed (snd (delete_workout_plan segment_7 (split_deleted [])))) = []"
  by (simp add: split_deleted_eq eval_defs)

section \<open>Exercises\<close>

text \<open>
  Claim C6, as amended: when the store accepts both statements and the clients
  that serve them are outside a transaction, creating an exercise under
  \<open>planId\<close> answers 201 with \<open>{success, message, exercise}\<close>, where \<open>exercise\<close> is
  the new row holding the submitted fields (an absent field as \<open>NULL\<close>), and a
  following listing for \<open>planId\<close> answers 200 with the exercises the plan already
  had followed by the new row; it is exactly the new row when the plan had no
  exercise before. \<open>c1\<close> serves the insert and \<open>c2\<close> the select.
\<close>

theorem exercise_round_trip:
  assumes p1: "peek w = (c1, None)"
    and p2: "peek (w\<lparr>sched := tl (sched w)\<rparr>) = (c2, None)"
    and i1: "txn w c1 = Idle"
    and i2: "txn w c2 = Idle"
  shows "let e = \<lparr>exercise_id = next_exercise_id w, ex_plan_id = planId,
                   exercise_name = to_sql name, sets = to_sql s, repetitions = to_sql r,
                   ex_notes = to_sql n\<rparr>;
             before = filter (\<lambda>x. ex_plan_id x = planId) (exercises (committed w))
         in fst (add_exercise planId name s r n w) =
              Some (201, JExercise True ''Exercise added to workout plan successfully.''
                           (Some (ExerciseRow e)))
          \<and> fst (get_exercises planId (snd (add_exercise planId name s r n w))) =
              Some (200, JRows (map ExerciseRow before @ [ExerciseRow e]))
          \<and> (before = [] \<longrightarrow>
              fst (get_exercises planId (snd (add_exercise planId name s r n w))) =
                Some (200, JRows [ExerciseRow e]))"
proof -
  let ?q = "InsertExercise planId name s r n"
  let ?e = "\<lparr>exercise_id = next_exercise_id w, ex_plan_id = planId,
             exercise_name = to_sql name, sets = to_sql s, repetitions = to_sql r,
             ex_notes = to_sql n\<rparr>"
  let ?w1 = "world_after ?q w"
  have n1: "txn w c1 \<noteq> Aborted" using i1 by simp
  have q1: "pool_query ?q w = (Inr [ExerciseRow ?e], ?w1)"
    using i1 by (simp add: world_after_def pool_query_accepted [OF p1 n1] Let_def)
  have c1: "committed ?w1 = (committed w)\<lparr>exercises := exercises (committed w) @ [?e]\<rparr>"
    and t1: "txn ?w1 = txn w"
    using i1
    by (simp_all add: world_after_def pool_query_accepted [OF p1 n1] Let_def do_write_def)
  have "sched ?w1 = sched (w\<lparr>sched := tl (sched w)\<rparr>)"
    by (simp add: world_after_def sched_pool_query)
  then have "peek ?w1 = peek (w\<lparr>sched := tl (sched w)\<rparr>)"
    by (rule peek_cong)
  then have p2': "peek ?w1 = (c2, None)" using p2 by simp
  have n2: "txn ?w1 c2 \<noteq> Aborted" using i2 t1 by simp
  have v2: "view ?w1 c2 = committed ?w1" using i2 t1 by (simp add: view_def)
  have add: "add_exercise planId name s r n w =
      (Some (201, JExercise True ''Exercise added to workout plan successfully.''
                    (Some (ExerciseRow ?e))), ?w1)"
    by (simp add: add_exercise_def q1)
  have get: "fst (get_exercises planId ?w1) =
      Some (200, JRows (map ExerciseRow
                          (filter (\<lambda>x. ex_plan_id x = planId) (exercises (committed w)))
                        @ [ExerciseRow ?e]))"
    by (simp add: get_exercises_def pool_query_accepted [OF p2' n2] v2 c1)
  show ?thesis
    by (simp add: Let_def add get)
qed

text \<open>The first exercise of plan 1: the listing is exactly the created row.\<close>

theorem exercise_round_trip_witness:
  "fst (add_exercise 1 (Str ''squat'') (Num ''3'') (Num ''10'') Undefined (planned [])) =
     Some (201, JExercise True ''Exercise added to workout plan successfully.''
       (Some (ExerciseRow \<lparr>exercise_id = 1, ex_plan_id = 1, exercise_name = Str ''squat'',
                             sets = Num ''3'', repetitions = Num ''10'', ex_notes = Null\<rparr>)))
   \<and> fst (get_exercises 1
        (snd (add_exercise 1 (Str ''squat'') (Num ''3'') (Num ''10'') Undefined (planned [])))) =
     Some (200, JRows
       [ExerciseRow \<lparr>exercise_id = 1, ex_plan_id = 1, exercise_name = Str ''squat'',
                       sets = Num ''3'', repetitions = Num ''10'', ex_notes = Null\<rparr>])"
proof -
  have p1: "peek (planned []) = (0, None)"
    by (simp add: planned_eq peek_def)
  have p2: "peek ((planned [])\<lparr>sched := tl (sched (planned []))\<rparr>) = (0, None)"
    by (simp add: planned_eq peek_def)
  have i: "txn (planned []) 0 = Idle"
    by (simp add: planned_eq)
  show ?thesis
    using exercise_round_trip [OF p1 p2 i i, of 1 "Str ''squat''" "Num ''3''" "Num ''10''"
            Undefined]
    by (simp add: Let_def planned_eq)
qed

text \<open>
  The claim as written fails for a plan that already has an exercise: after
  a second exercise is created under plan 1 of the stocked store, the listing
  holds both rows, not exactly the created one.
\<close>

theorem exercise_listing_counterexample:
  "fst (get_exercises 1 (snd (add_exercise 1 (Str ''lunge'') (Num ''2'') (Num ''8'') (Str ''slow'')
          (stocked [])))) =
     Some (200, JRows
       [ExerciseRow \<lparr>exercise_id = 1, ex_plan_id = 1, exercise_name = Str ''squat'',
                       sets = Num ''3'', repetitions = Num ''10'', ex_notes = Null\<rparr>,
        ExerciseRow \<lparr>exercise_id = 2, ex_plan_id = 1, exercise_name = Str ''lunge'',
                       sets = Num ''2'', repetitions = Num ''8'', ex_notes = Str ''slow''\<rparr>])
   \<and> fst (get_exercises 1 (snd (add_exercise 1 (Str ''lunge'') (Num ''2'') (Num ''8'') (Str ''slow'')
          (stocked [])))) \<noteq>
     Some (200, JRows
       [ExerciseRow \<lparr>exercise_id = 2, ex_plan_id = 1, exercise_name = Str ''lunge'',
                       sets = Num ''2'', repetitions = Num ''8'', ex_notes = Str ''slow''\<rparr>])"
  by (simp add: stocked_eq eval_defs)

section \<open>Registration\<close>

text \<open>
  Claim C7: for a registration request with username and password, when the
  store accepts the insert the handler answers 201 with the new user row, which
  is the row appended to the users table and whose password field is the output
  of the hasher for the submitted password with work factor 10; that field
  differs from the plaintext because the hasher's output differs from its input.
  When the store rejects the insert, whatever the error (a duplicate username
  as much as a lost connection), the handler answers 500 with the same text.
\<close>

theorem register_outcomes:
  assumes one_way: "hash_fn H pw 10 \<noteq> pw"
  shows "(peek w = (c, None) \<and> txn w c \<noteq> Aborted \<longrightarrow>
           (let u = \<lparr>uid = next_user_id w, username = pg_text name,
                      password = Str (hash_fn H pw 10)\<rparr>
            in fst (register H name (Str pw) w) = Some (201, JRow (Some (UserRow u)))
             \<and> users (view (snd (register H name (Str pw) w)) c) = users (view w c) @ [u]
             \<and> password u \<noteq> Str pw))
       \<and> (\<forall>e. fst (pool_query (InsertUser name (Str (hash_fn H pw 10))) w) = Inl e \<longrightarrow>
            fst (register H name (Str pw) w) = Some (500, Text ''Internal Server Error''))"
proof (intro conjI impI allI)
  assume a: "peek w = (c, None) \<and> txn w c \<noteq> Aborted"
  then have pq: "\<And>s. pool_query s w =
      (Inr (fst (run c s (w\<lparr>sched := tl (sched w), issued := issued w @ [(c, s)]\<rparr>))),
       snd (run c s (w\<lparr>sched := tl (sched w), issued := issued w @ [(c, s)]\<rparr>)))"
    by (simp add: pool_query_accepted)
  show "let u = \<lparr>uid = next_user_id w, username = pg_text name,
                  password = Str (hash_fn H pw 10)\<rparr>
        in fst (register H name (Str pw) w) = Some (201, JRow (Some (UserRow u)))
         \<and> users (view (snd (register H name (Str pw) w)) c) = users (view w c) @ [u]
         \<and> password u \<noteq> Str pw"
    using one_way
    by (auto simp: register_def pq Let_def view_def do_write_def apply_writes_def
             split: txn_state.splits)
next
  fix e
  assume "fst (pool_query (InsertUser name (Str (hash_fn H pw 10))) w) = Inl e"
  then have "pool_query (InsertUser name (Str (hash_fn H pw 10))) w =
      (Inl e, world_after (InsertUser name (Str (hash_fn H pw 10))) w)"
    by (rule pool_queryI)
  then show "fst (register H name (Str pw) w) = Some (500, Text ''Internal Server Error'')"
    by (simp add: register_def)
qed

text \<open>
  alice registers on the empty store; registering alice again is rejected by the
  store as a unique violation (23505) and answered like any other store error.
\<close>

theorem register_outcomes_witness:
  "fst (register example_hasher (Str ''alice'') (Str ''secret'') (init_world [])) =
     Some (201, JRow (Some (UserRow \<lparr>uid = 1, username = Str ''alice'',
                                       password = Str ''bcrypt:secret''\<rparr>)))
   \<and> fst (register example_hasher (Str ''alice'') (Str ''secret'')
        (enrolled [(0, Some ''23505'')])) = Some (500, Text ''Internal Server Error'')"
proof -
  have ow: "hash_fn example_hasher ''secret'' 10 \<noteq> ''secret''"
    by (simp add: example_hasher_def)
  have a: "fst (register example_hasher (Str ''alice'') (Str ''secret'') (init_world [])) =
     Some (201, JRow (Some (UserRow \<lparr>uid = 1, username = Str ''alice'',
                                       password = Str ''bcrypt:secret''\<rparr>)))"
    using conjunct1 [OF register_outcomes [OF ow, of "init_world []" 0 "Str ''alice''"]]
    by (simp add: init_world_def peek_def example_hasher_def Let_def)
  have rej: "fst (pool_query (InsertUser (Str ''alice'')
                    (Str (hash_fn example_hasher ''secret'' 10)))
                  (enrolled [(0, Some ''23505'')])) = Inl ''23505''"
    by (rule pool_query_rejected) (simp add: enrolled_eq peek_def)
  have b: "fst (register example_hasher (Str ''alice'') (Str ''secret'')
        (enrolled [(0, Some ''23505'')])) = Some (500, Text ''Internal Server Error'')"
    using conjunct2 [OF register_outcomes [OF ow, of "enrolled [(0, Some ''23505'')]" 0
                       "Str ''alice''"]] rej
    by blast
  show ?thesis
    by (rule conjI [OF a b])
qed

section \<open>Listing plans\<close>

text \<open>
  Claim C8: for every \<open>user_id\<close>, when the store accepts the select, the plan
  listing handler answers 200 with the records \<open>{plan_id, plan_name, description}\<close>
  of that user's plans in table order, which is the order of insertion (a plan
  created afterwards for the user is listed last), and with the empty sequence,
  not an error, when the user has no plan.
\<close>

theorem plan_listing:
  assumes "peek w = (c, None)" and "txn w c \<noteq> Aborted"
  shows "fst (get_workout_plans u w) =
           Some (200, JRows (map (\<lambda>p. SummaryRow (summary p))
                               (filter (\<lambda>p. user_id p = u) (plans (view w c)))))
       \<and> (filter (\<lambda>p. user_id p = u) (plans (view w c)) = [] \<longrightarrow>
            fst (get_workout_plans u w) = Some (200, JRows []))
       \<and> (\<forall>name descr.
            (\<forall>c'. txn w c' = Idle) \<and> (\<forall>ev \<in> set (take 2 (sched w)). snd ev = None) \<longrightarrow>
            fst (get_workout_plans u (snd (create_workout_plan u name descr w))) =
              Some (200, JRows
                (map (\<lambda>p. SummaryRow (summary p))
                     (filter (\<lambda>p. user_id p = u) (plans (committed w)))
                 @ [SummaryRow \<lparr>s_plan_id = next_plan_id w, s_plan_name = to_sql name,
                                  s_description = to_sql descr\<rparr>])))"
proof (intro conjI allI impI)
  show "fst (get_workout_plans u w) =
           Some (200, JRows (map (\<lambda>p. SummaryRow (summary p))
                               (filter (\<lambda>p. user_id p = u) (plans (view w c)))))"
    by (simp add: get_workout_plans_def pool_query_accepted [OF assms])
next
  assume "filter (\<lambda>p. user_id p = u) (plans (view w c)) = []"
  then show "fst (get_workout_plans u w) = Some (200, JRows [])"
    by (simp add: get_workout_plans_def pool_query_accepted [OF assms])
next
  fix name descr
  assume a: "(\<forall>c'. txn w c' = Idle) \<and> (\<forall>ev \<in> set (take 2 (sched w)). snd ev = None)"
  let ?q = "InsertPlan u name descr"
  let ?p = "\<lparr>plan_id = next_plan_id w, user_id = u, plan_name = to_sql name,
             description = to_sql descr\<rparr>"
  let ?w1 = "world_after ?q w"
  have idle: "\<forall>c'. txn w c' = Idle" using a by blast
  have i1: "txn w c \<noteq> Aborted" using idle by simp
  have a2: "accepts 2 w" using a by (simp add: accepts_def)
  have q1: "pool_query ?q w = (Inr [PlanRow ?p], ?w1)"
    using idle by (simp add: world_after_def pool_query_accepted [OF assms(1) i1] Let_def)
  have c1: "committed ?w1 = (committed w)\<lparr>plans := plans (committed w) @ [?p]\<rparr>"
    and t1: "txn ?w1 = txn w"
    using idle
    by (simp_all add: world_after_def pool_query_accepted [OF assms(1) i1] Let_def do_write_def)
  have "accepts 1 ?w1" unfolding world_after_def
    using a2 by (intro accepts_step) (simp add: eval_nat_numeral)
  then have "snd (peek ?w1) = None" by (intro accepts_peek) simp
  then obtain c2 where p2: "peek ?w1 = (c2, None)" by (cases "peek ?w1") simp
  have i2: "txn ?w1 c2 \<noteq> Aborted" using idle t1 by simp
  have v2: "view ?w1 c2 = committed ?w1" using idle t1 by (simp add: view_def)
  have cr: "snd (create_workout_plan u name descr w) = ?w1"
    by (simp add: create_workout_plan_def q1)
  show "fst (get_workout_plans u (snd (create_workout_plan u name descr w))) =
          Some (200, JRows
            (map (\<lambda>p. SummaryRow (summary p))
                 (filter (\<lambda>p. user_id p = u) (plans (committed w)))
             @ [SummaryRow \<lparr>s_plan_id = next_plan_id w, s_plan_name = to_sql name,
                              s_description = to_sql descr\<rparr>]))"
    by (simp add: cr get_workout_plans_def pool_query_accepted [OF p2 i2] v2 c1 summary_def)
qed

text \<open>User 1 has one plan, user 2 none; a second plan of user 1 is listed after the first.\<close>

theorem plan_listing_witness:
  "fst (get_workout_plans 1 (planned [])) =
     Some (200, JRows [SummaryRow \<lparr>s_plan_id = 1, s_plan_name = Str ''legs'',
                                     s_description = Null\<rparr>])
   \<and> fst (get_workout_plans 2 (planned [])) = Some (200, JRows [])
   \<and> fst (get_workout_plans 1
        (snd (create_workout_plan 1 (Str ''arms'') (Str ''push and pull'') (planned [])))) =
     Some (200, JRows [SummaryRow \<lparr>s_plan_id = 1, s_plan_name = Str ''legs'',
                                     s_description = Null\<rparr>,
                       SummaryRow \<lparr>s_plan_id = 2, s_plan_name = Str ''arms'',
                                     s_description = Str ''push and pull''\<rparr>])"
proof -
  have pk: "peek (planned []) = (0, None)"
    by (simp add: planned_eq peek_def)
  have na: "txn (planned []) 0 \<noteq> Aborted"
    by (simp add: planned_eq)
  note t = plan_listing [OF pk na]
  have a: "fst (get_workout_plans 1 (planned [])) =
     Some (200, JRows [SummaryRow \<lparr>s_plan_id = 1, s_plan_name = Str ''legs'',
                                     s_description = Null\<rparr>])"
    using conjunct1 [OF t [where u = 1]] by (simp add: planned_eq view_def summary_def)
  have b: "fst (get_workout_plans 2 (planned [])) = Some (200, JRows [])"
    using conjunct1 [OF conjunct2 [OF t [where u = 2]]] by (simp add: planned_eq view_def)
  have c: "fst (get_workout_plans 1
        (snd (create_workout_plan 1 (Str ''arms'') (Str ''push and pull'') (planned [])))) =
     Some (200, JRows [SummaryRow \<lparr>s_plan_id = 1, s_plan_name = Str ''legs'',
                                     s_description = Null\<rparr>,
                       SummaryRow \<lparr>s_plan_id = 2, s_plan_name = Str ''arms'',
                                     s_description = Str ''push and pull''\<rparr>])"
    using conjunct2 [OF conjunct2 [OF t [where u = 1]]]
    by (simp add: planned_eq summary_def)
  show ?thesis
    by (intro conjI a b c)
qed

section \<open>Clients of the deletion's statements\<close>

text \<open>
  Claim C9: within one invocation of the plan deletion handler the
  exercise-delete runs before the plan-delete because both are sent on one
  connection. In the run below, on the stocked store, the statements are sent
  in that order (each awaited before the next), but the pool serves them on
  two clients: the exercise-delete runs on client 1, outside the transaction
  that \<^verbatim>\<open>BEGIN\<close> opened on client 0.
\<close>

theorem delete_clients:
  "drop 2 (issued (snd (delete_workout_plan segment_1
        (stocked [(0, None), (1, None), (0, None), (1, None)])))) =
     [(0, Begin), (1, DeleteExercises 1), (0, DeletePlan 1), (1, Commit)]"
  by (simp add: stocked_eq eval_defs)

text \<open>
  The deletion handler is the only one that sends more than one statement: every
  other handler sends exactly one, and a registration whose hash fails none.
\<close>

lemma one_statement_handlers:
  "length (issued (snd (login H name pw w))) = Suc (length (issued w))"
  "length (issued (snd (create_workout_plan u pname descr w))) = Suc (length (issued w))"
  "length (issued (snd (get_workout_plans u w))) = Suc (length (issued w))"
  "length (issued (snd (add_exercise planId ename s r n w))) = Suc (length (issued w))"
  "length (issued (snd (get_exercises planId w))) = Suc (length (issued w))"
  "length (issued (snd (register H name pw w))) \<le> Suc (length (issued w))"
  "issued (snd (root w)) = issued w"
  by (auto simp: login_def create_workout_plan_def get_workout_plans_def add_exercise_def
        get_exercises_def register_def root_def
      split: prod.splits sum.splits list.splits dest!: issued_pool_queryD)

text \<open>
  Whatever the store and the pool do, the handler sends its statements in one of
  five sequences: the plan-delete is never sent before the exercise-delete has
  been awaited.
\<close>

lemma issued_delete_catch:
  "issued (snd (delete_catch w)) = issued w @ [(fst (peek w), Rollback)]"
  by (auto simp: delete_catch_def split: prod.splits sum.splits dest!: issued_pool_queryD)

lemma delete_statement_order:
  "map snd (drop (length (issued w)) (issued (snd (delete_workout_plan planId w)))) \<in>
     {[Begin, Rollback],
      [Begin, DeleteExercises (seg_key planId), Rollback],
      [Begin, DeleteExercises (seg_key planId), DeletePlan (seg_key planId), Rollback],
      [Begin, DeleteExercises (seg_key planId), DeletePlan (seg_key planId), Commit, Rollback],
      [Begin, DeleteExercises (seg_key planId), DeletePlan (seg_key planId), Commit]}"
proof -
  obtain r1 w1 where q1: "pool_query Begin w = (r1, w1)" by force
  obtain r2 w2 where q2: "pool_query (DeleteExercises (seg_key planId)) w1 = (r2, w2)" by force
  obtain r3 w3 where q3: "pool_query (DeletePlan (seg_key planId)) w2 = (r3, w3)" by force
  obtain r4 w4 where q4: "pool_query Commit w3 = (r4, w4)" by force
  note i1 = issued_pool_queryD [OF q1]
  note i2 = issued_pool_queryD [OF q2]
  note i3 = issued_pool_queryD [OF q3]
  note i4 = issued_pool_queryD [OF q4]
  show ?thesis
  proof (cases r1)
    case (Inl e)
    then show ?thesis
      by (simp add: delete_workout_plan_def q1 issued_delete_catch i1)
  next
    case a: (Inr x1)
    show ?thesis
    proof (cases r2)
      case (Inl e)
      then show ?thesis
        by (simp add: delete_workout_plan_def q1 q2 a issued_delete_catch i1 i2)
    next
      case b: (Inr x2)
      show ?thesis
      proof (cases r3)
        case (Inl e)
        then show ?thesis
          by (simp add: delete_workout_plan_def q1 q2 q3 a b issued_delete_catch i1 i2 i3)
      next
        case c: (Inr x3)
        show ?thesis
        proof (cases r4)
          case (Inl e)
          then show ?thesis
            by (simp add: delete_workout_plan_def q1 q2 q3 q4 a b c issued_delete_catch
                  i1 i2 i3 i4)
        next
          case (Inr x4)
          then show ?thesis
            by (simp add: delete_workout_plan_def q1 q2 q3 q4 a b c i1 i2 i3 i4)
        qed
      qed
    qed
  qed
qed

section \<open>A registration whose hash fails\<close>

text \<open>
  Claim C10: when the hashing step of a registration fails (the body has no
  password field, for one), the handler sends no response, neither 201 nor 500,
  and no statement: the hash is awaited before the \<^verbatim>\<open>try\<close> block.
\<close>

theorem register_hash_failure:
  assumes "bcrypt_hash H pw 10 = Inl e"
  shows "register H name pw w = (None, w)"
proof -
  have "register H name pw w = (case bcrypt_hash H pw 10 of
          Inl err \<Rightarrow> (None, w)
        | Inr hashedPassword \<Rightarrow>
            (case pool_query (InsertUser name (Str hashedPassword)) w of
               (Inl err, w') \<Rightarrow> (Some (500, Text ''Internal Server Error''), w')
             | (Inr rows, w') \<Rightarrow> (Some (201, JRow (first_row rows)), w')))"
    by (simp add: register_def)
  then show ?thesis
    using assms by simp
qed

text \<open>A body without a password field.\<close>

theorem register_hash_failure_witness:
  "register example_hasher (Str ''alice'') Undefined (init_world []) = (None, init_world [])"
proof -
  have h: "bcrypt_hash example_hasher Undefined 10 = Inl ''data and salt arguments required''"
    by simp
  show ?thesis
    by (rule register_hash_failure [OF h])
qed

end
